theory Spec2Isabelle
  imports Main
begin

section \<open>Data model\<close>

text \<open>
  The builder configuration. The struct \<open>Config\<close> is declared outside the two step files;
  the fields below are the ones the steps read, under the names they are read by.
\<close>

record Config =
  OrkaEndpoint :: string
  OrkaUser :: string
  OrkaPassword :: string
  SourceImage :: string
  ImageName :: string
  OrkaVMBuilderName :: string
  OrkaVMCPUCore :: int
  ImagePrecopy :: bool
  NoCreateImage :: bool
  NoDeleteVM :: bool

text \<open>A Go \<open>error\<close> is kept as the text \<open>Error()\<close> returns, which is what \<open>%s\<close> prints.\<close>

type_synonym error = string

text \<open>
  Values of the state bag (\<open>multistep.StateBag\<close>, a map from string keys to
  \<open>interface{}\<close>). \<open>VUi\<close> stands for the \<open>packer.Ui\<close> object, \<open>VFlag\<close> for the
  marker the runner stores under \<open>cancelled\<close> and \<open>halted\<close>.
\<close>

datatype bag_value =
    VConfig Config
  | VUi
  | VString string
  | VInt int
  | VError error
  | VFlag

datatype StepAction = ActionContinue | ActionHalt

text \<open>
  The JSON payload of a request, before \<open>json.Marshal\<close>: one constructor per request
  struct, its arguments in the order of the struct literal in the source.
  \<open>VMCreateRequest\<close> carries \<open>OrkaVMName\<close>, \<open>OrkaVMImage\<close>, \<open>OrkaImage\<close>,
  \<open>OrkaCPUCore\<close>, \<open>VCPUCount\<close>.
\<close>

datatype request_data =
    TokenLoginRequest string string
  | ImageCopyRequest string string
  | VMCreateRequest string string string int int
  | VMDeployRequest string
  | ImageCommitRequest string
  | ImageSaveRequest string string
  | ImageDeleteRequest string
  | VMPurgeRequest string

record http_request =
  Method :: string
  URL :: string
  Header :: "(string \<times> string) list"
  Payload :: request_data

record http_response =
  StatusCode :: int
  Status :: string
  Body :: string

record VMDeployResponse =
  VMId :: string
  IP :: string
  SSHPort :: string

text \<open>
  What the steps use and do not define: the two message constants, whether
  \<open>http.NewRequest\<close> accepts a URL, the answer of \<open>client.Do\<close> (the pair
  \<open>(*Response, error)\<close>, either of which may be nil), and \<open>json.Unmarshal\<close> into the
  response structs, of which only the fields that are read are kept.
\<close>

record extern =
  OrkaAPIRequestErrorMessage :: string
  OrkaAPIResponseErrorMessage :: string
  url_parses :: "string \<Rightarrow> bool"
  client_Do :: "http_request \<Rightarrow> http_response option \<times> error option"
  unmarshal_Token :: "string \<Rightarrow> string"
  unmarshal_VMDeployResponse :: "string \<Rightarrow> VMDeployResponse"
  unmarshal_CommitMessage :: "string \<Rightarrow> string"
  unmarshal_SaveMessage :: "string \<Rightarrow> string"

datatype ui_msg = UiSay string | UiError string

text \<open>
  Everything a step can touch besides its own struct: the state bag, what was written to
  the user interface, and the requests handed to \<open>client.Do\<close>, both in order.
\<close>

record world =
  bag :: "string \<Rightarrow> bag_value option"
  ui_log :: "ui_msg list"
  http_log :: "http_request list"

record stepOrkaCreate =
  failed :: bool
  precopyFailed :: bool

text \<open>
  A run-time panic ends the step: a nil pointer is dereferenced, or a type assertion
  \<open>state.Get(k).(T)\<close> finds no value of type \<open>T\<close> under \<open>k\<close>.
\<close>

datatype panic = NilPointerDereference | InterfaceConversion string

datatype 'a outcome = Returned 'a | Panicked panic

section \<open>Library operations\<close>

definition Say :: "string \<Rightarrow> world \<Rightarrow> world" where
  "Say msg w = w\<lparr>ui_log := ui_log w @ [UiSay msg]\<rparr>"

definition Error :: "string \<Rightarrow> world \<Rightarrow> world" where
  "Error msg w = w\<lparr>ui_log := ui_log w @ [UiError msg]\<rparr>"

definition Put :: "string \<Rightarrow> bag_value \<Rightarrow> world \<Rightarrow> world" where
  "Put k v w = w\<lparr>bag := (bag w)(k := Some v)\<rparr>"

fun as_Config :: "bag_value option \<Rightarrow> Config option" where
  "as_Config (Some (VConfig c)) = Some c"
| "as_Config _ = None"

fun as_Ui :: "bag_value option \<Rightarrow> unit option" where
  "as_Ui (Some VUi) = Some ()"
| "as_Ui _ = None"

fun as_string :: "bag_value option \<Rightarrow> string option" where
  "as_string (Some (VString x)) = Some x"
| "as_string _ = None"

text \<open>
  \<open>textproto.CanonicalMIMEHeaderKey\<close>: a key made of header field bytes only gets its
  first letter and every letter after a hyphen in upper case and all other letters in lower
  case; a key with any other byte is left as it is.
\<close>

definition validHeaderFieldByte :: "char \<Rightarrow> bool" where
  "validHeaderFieldByte c =
     (c \<in> set ''abcdefghijklmnopqrstuvwxyzABCDEFGHIJKLMNOPQRSTUVWXYZ0123456789''
      \<or> c \<in> set [CHR 0x21, CHR 0x23, CHR 0x24, CHR 0x25, CHR 0x26, CHR 0x27, CHR 0x2A, CHR 0x2B,
                   CHR 0x2D, CHR 0x2E, CHR 0x5E, CHR 0x5F, CHR 0x60, CHR 0x7C, CHR 0x7E])"

definition to_upper :: "char \<Rightarrow> char" where
  "to_upper c =
     (case map_of (zip ''abcdefghijklmnopqrstuvwxyz'' ''ABCDEFGHIJKLMNOPQRSTUVWXYZ'') c of
        None \<Rightarrow> c | Some u \<Rightarrow> u)"

definition to_lower :: "char \<Rightarrow> char" where
  "to_lower c =
     (case map_of (zip ''ABCDEFGHIJKLMNOPQRSTUVWXYZ'' ''abcdefghijklmnopqrstuvwxyz'') c of
        None \<Rightarrow> c | Some l \<Rightarrow> l)"

fun canonical_case :: "bool \<Rightarrow> string \<Rightarrow> string" where
  "canonical_case upper [] = []"
| "canonical_case upper (c # cs) =
     (if upper then to_upper c else to_lower c) # canonical_case (c = CHR ''-'') cs"

definition CanonicalMIMEHeaderKey :: "string \<Rightarrow> string" where
  "CanonicalMIMEHeaderKey k = (if list_all validHeaderFieldByte k then canonical_case True k else k)"

text \<open>
  \<open>Header.Set\<close> stores the value under the canonical form of the key, replacing the
  value of a key that is present and adding the key otherwise.
\<close>

fun Header_replace :: "string \<Rightarrow> string \<Rightarrow> (string \<times> string) list \<Rightarrow> (string \<times> string) list" where
  "Header_replace k v [] = [(k, v)]"
| "Header_replace k v ((k', v') # h) =
     (if k' = k then (k, v) # h else (k', v') # Header_replace k v h)"

definition Header_Set :: "string \<Rightarrow> string \<Rightarrow> (string \<times> string) list \<Rightarrow> (string \<times> string) list" where
  "Header_Set k v h = Header_replace (CanonicalMIMEHeaderKey k) v h"

definition set_header :: "string \<Rightarrow> string \<Rightarrow> http_request \<Rightarrow> http_request" where
  "set_header k v req = req\<lparr>Header := Header_Set k v (Header req)\<rparr>"

text \<open>\<open>http.NewRequest\<close>: nil (here \<open>None\<close>) when the URL does not parse.\<close>

definition NewRequest :: "extern \<Rightarrow> string \<Rightarrow> string \<Rightarrow> request_data \<Rightarrow> http_request option" where
  "NewRequest ext m u d =
     (if url_parses ext u then Some \<lparr>Method = m, URL = u, Header = [], Payload = d\<rparr> else None)"

text \<open>\<open>client.Do(req)\<close>: the request is recorded and the environment answers.\<close>

definition Do :: "extern \<Rightarrow> http_request \<Rightarrow> world \<Rightarrow> (http_response option \<times> error option) \<times> world" where
  "Do ext req w = (client_Do ext req, w\<lparr>http_log := http_log w @ [req]\<rparr>)"

text \<open>
  \<open>strconv.Atoi\<close> on a 64-bit platform, as \<open>ParseInt(s, 10, 0)\<close>: an optional sign, then
  decimal digits read left to right. A character that is no digit is a syntax error with
  value 0; a value that leaves the range is a range error with the nearest bound, found as
  soon as the digits read so far overflow 64 bits. The second component tells whether an
  error was returned.
\<close>

definition digit_val :: "char \<Rightarrow> int option" where
  "digit_val c =
     (let n = (of_char c :: int) in if 48 \<le> n \<and> n \<le> 57 then Some (n - 48) else None)"

datatype num_error = ErrSyntax | ErrRange

fun ParseUint_digits :: "int \<Rightarrow> string \<Rightarrow> int \<times> num_error option" where
  "ParseUint_digits n [] = (n, None)"
| "ParseUint_digits n (c # cs) =
     (case digit_val c of
        None \<Rightarrow> (0, Some ErrSyntax)
      | Some d \<Rightarrow>
          if n \<ge> (2 ^ 64 - 1) div 10 + 1 then (2 ^ 64 - 1, Some ErrRange)
          else if n * 10 + d > 2 ^ 64 - 1 then (2 ^ 64 - 1, Some ErrRange)
          else ParseUint_digits (n * 10 + d) cs)"

definition ParseUint :: "string \<Rightarrow> int \<times> num_error option" where
  "ParseUint s = (if s = [] then (0, Some ErrSyntax) else ParseUint_digits 0 s)"

definition Atoi :: "string \<Rightarrow> int \<times> bool" where
  "Atoi s =
     (if s = [] then (0, True)
      else
        let neg = (hd s = CHR ''-'');
            s' = (if hd s = CHR ''+'' \<or> hd s = CHR ''-'' then tl s else s);
            (un, err) = ParseUint s'
        in if err = Some ErrSyntax then (0, True)
           else if \<not> neg \<and> un \<ge> 2 ^ 63 then (2 ^ 63 - 1, True)
           else if neg \<and> un > 2 ^ 63 then (- (2 ^ 63), True)
           else (if neg then - un else un, False))"

section \<open>The step that logs in, creates and deploys the builder VM\<close>

text \<open>
  \<open>createOrkaToken\<close>: one POST to \<open>/token\<close>. The error of \<open>http.NewRequest\<close> is
  overwritten unread, so a nil request panics at \<open>req.Header.Set\<close>. The status code of
  the answer is not looked at.
\<close>

definition createOrkaToken :: "extern \<Rightarrow> world \<Rightarrow> (string \<times> error option) outcome \<times> world" where
  "createOrkaToken ext w =
     (case as_Config (bag w ''config'') of
        None \<Rightarrow> (Panicked (InterfaceConversion ''config''), w)
      | Some config \<Rightarrow>
          (case NewRequest ext ''POST'' (OrkaEndpoint config @ ''/'' @ ''token'')
                  (TokenLoginRequest (OrkaUser config) (OrkaPassword config)) of
             None \<Rightarrow> (Panicked NilPointerDereference, w)
           | Some req0 \<Rightarrow>
               let req = set_header ''Content-Type'' ''application/json'' req0;
                   ((resp, err), w1) = Do ext req w
               in (case err of
                     Some e \<Rightarrow>
                       (Returned ([], Some (''Error while logging into the Orka API: '' @ e)), w1)
                   | None \<Rightarrow>
                       (case resp of
                          None \<Rightarrow> (Panicked NilPointerDereference, w1)
                        | Some r \<Rightarrow> (Returned (unmarshal_Token ext (Body r), None), w1)))))"

text \<open>
  The body of \<open>Run\<close> is cut at the banner comments of the source; each part ends by
  returning or by entering the next one. Last part: the answer of the deploy call is in
  hand.
\<close>

definition Run_store ::
  "VMDeployResponse \<Rightarrow> stepOrkaCreate \<Rightarrow> world \<Rightarrow> StepAction outcome \<times> stepOrkaCreate \<times> world" where
  "Run_store d s w =
     (let w1 = Put ''vmid'' (VString (VMId d)) w;
          w2 = Say (''Created VM ['' @ VMId d @ '']'') w1;
          w3 = Say (''SSH server will be available at ['' @ IP d @ '':'' @ SSHPort d @ '']'') w2;
          sshPort = fst (Atoi (SSHPort d));
          w4 = Put ''ssh_port'' (VInt sshPort) w3;
          w5 = Put ''ssh_host'' (VString (IP d)) w4
      in (Returned ActionContinue, s, w5))"

text \<open>
  The deploy call. The error of \<open>client.Do\<close> is not tested before the response is read,
  so a nil response panics.
\<close>

definition Run_deploy ::
  "extern \<Rightarrow> Config \<Rightarrow> string \<Rightarrow> stepOrkaCreate \<Rightarrow> world \<Rightarrow> StepAction outcome \<times> stepOrkaCreate \<times> world" where
  "Run_deploy ext config token s w =
     (let w1 = Say (''Creating builder VM based on ['' @ OrkaVMBuilderName config @ ''] configuration'') w
      in case NewRequest ext ''POST'' (OrkaEndpoint config @ ''/'' @ ''resources/vm/deploy'')
                (VMDeployRequest (OrkaVMBuilderName config)) of
           None \<Rightarrow> (Panicked NilPointerDereference, s, w1)
         | Some req0 \<Rightarrow>
             let req = set_header ''Authorization'' (''Bearer '' @ token)
                         (set_header ''Content-Type'' ''application/json'' req0);
                 ((resp, err), w2) = Do ext req w1
             in (case resp of
                   None \<Rightarrow> (Panicked NilPointerDereference, s, w2)
                 | Some r \<Rightarrow>
                     if StatusCode r \<noteq> 200 then
                       (Returned ActionHalt, s\<lparr>failed := True\<rparr>,
                        Put ''error'' (VError (''Error from API while deploying Orka VM: '' @ Status r)) w2)
                     else Run_store (unmarshal_VMDeployResponse ext (Body r)) s w2))"

text \<open>The create call. A transport error halts without setting \<open>failed\<close>.\<close>

definition Run_create ::
  "extern \<Rightarrow> Config \<Rightarrow> string \<Rightarrow> string \<Rightarrow> stepOrkaCreate \<Rightarrow> world \<Rightarrow> StepAction outcome \<times> stepOrkaCreate \<times> world" where
  "Run_create ext config token actualImage s w =
     (let w1 = Say (''Creating a Builder VM configuration ['' @ OrkaVMBuilderName config @ '']'') w
      in case NewRequest ext ''POST'' (OrkaEndpoint config @ ''/'' @ ''resources/vm/create'')
                (VMCreateRequest (OrkaVMBuilderName config) actualImage (OrkaVMBuilderName config)
                   (OrkaVMCPUCore config) (OrkaVMCPUCore config)) of
           None \<Rightarrow> (Panicked NilPointerDereference, s, w1)
         | Some req0 \<Rightarrow>
             let req = set_header ''Authorization'' (''Bearer '' @ token)
                         (set_header ''Content-Type'' ''application/json'' req0);
                 ((resp, err), w2) = Do ext req w1
             in (case err of
                   Some e \<Rightarrow>
                     (Returned ActionHalt, s,
                      Error (OrkaAPIRequestErrorMessage ext @ '' ['' @ e @ '']'') w2)
                 | None \<Rightarrow>
                     (case resp of
                        None \<Rightarrow> (Panicked NilPointerDereference, s, w2)
                      | Some r \<Rightarrow>
                          if StatusCode r \<noteq> 201 then
                            (let e = OrkaAPIResponseErrorMessage ext @ '' ['' @ Status r @ '']''
                             in (Returned ActionHalt, s\<lparr>failed := True\<rparr>,
                                 Put ''error'' (VError e) (Error e w2)))
                          else
                            Run_deploy ext config token s
                              (Say (''Created builder VM configuration ['' @ OrkaVMBuilderName config @ '']'') w2))))"

text \<open>
  Image selection. Only the transport error of the copy sets \<open>precopyFailed\<close>; a status
  other than 200 sets \<open>failed\<close> alone.
\<close>

definition Run_image ::
  "extern \<Rightarrow> Config \<Rightarrow> string \<Rightarrow> stepOrkaCreate \<Rightarrow> world \<Rightarrow> StepAction outcome \<times> stepOrkaCreate \<times> world" where
  "Run_image ext config token s w =
     (let actualImage = SourceImage config
      in if ImagePrecopy config then
           (if NoCreateImage config then
              Run_create ext config token actualImage s
                (Say ''Skipping source image pre-copy because of 'no_create_image' being set'' w)
            else
              let w1 = Say (''Pre-copying source image ['' @ SourceImage config
                              @ ''] to destination image ['' @ ImageName config @ '']'') w;
                  w2 = Say ''This can take awhile depending on how big the source image is - please wait...'' w1
              in case NewRequest ext ''POST'' (OrkaEndpoint config @ ''/'' @ ''resources/image/copy'')
                        (ImageCopyRequest (SourceImage config) (ImageName config)) of
                   None \<Rightarrow> (Panicked NilPointerDereference, s, w2)
                 | Some req0 \<Rightarrow>
                     let req = set_header ''Authorization'' (''Bearer '' @ token)
                                 (set_header ''Content-Type'' ''application/json'' req0);
                         ((resp, err), w3) = Do ext req w2
                     in (case err of
                           Some e \<Rightarrow>
                             (Returned ActionHalt, s\<lparr>failed := True, precopyFailed := True\<rparr>,
                              Put ''error'' (VError e)
                                (Error (OrkaAPIRequestErrorMessage ext @ '' ['' @ e @ '']'') w3))
                         | None \<Rightarrow>
                             (case resp of
                                None \<Rightarrow> (Panicked NilPointerDereference, s, w3)
                              | Some r \<Rightarrow>
                                  if StatusCode r \<noteq> 200 then
                                    (let e = ''Error from API: '' @ Status r
                                     in (Returned ActionHalt, s\<lparr>failed := True\<rparr>,
                                         Put ''error'' (VError e) (Error e w3)))
                                  else
                                    let w4 = Say ''Image copied'' w3;
                                        w5 = Say (''Builder VM configuration will use pre-copied base image ''
                                                    @ actualImage) w4
                                    in Run_create ext config token (ImageName config) s w5)))
         else
           Run_create ext config token actualImage s
             (Say (''Builder VM configuration will use base image ['' @ actualImage @ '']'') w))"

text \<open>\<open>Run\<close>: the two type assertions, the login, then the parts above.\<close>

definition stepOrkaCreate_Run ::
  "extern \<Rightarrow> stepOrkaCreate \<Rightarrow> world \<Rightarrow> StepAction outcome \<times> stepOrkaCreate \<times> world" where
  "stepOrkaCreate_Run ext s w =
     (case as_Config (bag w ''config'') of
        None \<Rightarrow> (Panicked (InterfaceConversion ''config''), s, w)
      | Some config \<Rightarrow>
          (case as_Ui (bag w ''ui'') of
             None \<Rightarrow> (Panicked (InterfaceConversion ''ui''), s, w)
           | Some _ \<Rightarrow>
               (case createOrkaToken ext (Say ''Logging into Orka API endpoint'' w) of
                  (Panicked p, w1) \<Rightarrow> (Panicked p, s, w1)
                | (Returned (token, Some err), w1) \<Rightarrow>
                    (Returned ActionHalt, s\<lparr>failed := True\<rparr>,
                     Put ''error'' (VError err)
                       (Error (OrkaAPIRequestErrorMessage ext @ '' ['' @ err @ '']'') w1))
                | (Returned (token, None), w1) \<Rightarrow>
                    Run_image ext config token s
                      (Put ''token'' (VString token) (Say ''Logged in with token'' w1)))))"

text \<open>
  \<open>precopyImageDelete\<close>: one DELETE to \<open>/resources/image/delete\<close>. The image named in
  the request is \<open>config.OrkaVMBuilderName\<close>. The result is the error returned, if any.
\<close>

definition precopyImageDelete :: "extern \<Rightarrow> world \<Rightarrow> error option outcome \<times> world" where
  "precopyImageDelete ext w =
     (case as_Config (bag w ''config'') of
        None \<Rightarrow> (Panicked (InterfaceConversion ''config''), w)
      | Some config \<Rightarrow>
          (case as_Ui (bag w ''ui'') of
             None \<Rightarrow> (Panicked (InterfaceConversion ''ui''), w)
           | Some _ \<Rightarrow>
               (case as_string (bag w ''token'') of
                  None \<Rightarrow> (Panicked (InterfaceConversion ''token''), w)
                | Some token \<Rightarrow>
                    (case NewRequest ext ''DELETE'' (OrkaEndpoint config @ ''/'' @ ''resources/image/delete'')
                            (ImageDeleteRequest (OrkaVMBuilderName config)) of
                       None \<Rightarrow> (Panicked NilPointerDereference, w)
                     | Some req0 \<Rightarrow>
                         let req = set_header ''Authorization'' (''Bearer '' @ token)
                                     (set_header ''Content-Type'' ''application/json'' req0);
                             ((resp, err), w1) = Do ext req w
                         in (case err of
                               Some e0 \<Rightarrow>
                                 (let e = OrkaAPIRequestErrorMessage ext @ '' ['' @ e0 @ '']''
                                  in (Returned (Some e), Put ''error'' (VError e0) (Error e w1)))
                             | None \<Rightarrow>
                                 (case resp of
                                    None \<Rightarrow> (Panicked NilPointerDereference, w1)
                                  | Some r \<Rightarrow>
                                      if StatusCode r \<noteq> 200 then
                                        (let e = ''Image could not be deleted ['' @ Status r @ '']''
                                         in (Returned (Some e), Error e w1))
                                      else
                                        (Returned None,
                                         Say (''Image deleted ['' @ Status r @ '']'') w1)))))))"

text \<open>
  \<open>Cleanup\<close>. The three type assertions come first. The step struct is read, not
  written. On the purge path a transport error is reported and stored, after which the
  response is read all the same.
\<close>

definition stepOrkaCreate_Cleanup :: "extern \<Rightarrow> stepOrkaCreate \<Rightarrow> world \<Rightarrow> unit outcome \<times> world" where
  "stepOrkaCreate_Cleanup ext s w =
     (case as_Config (bag w ''config'') of
        None \<Rightarrow> (Panicked (InterfaceConversion ''config''), w)
      | Some config \<Rightarrow>
          (case as_Ui (bag w ''ui'') of
             None \<Rightarrow> (Panicked (InterfaceConversion ''ui''), w)
           | Some _ \<Rightarrow>
               (case as_string (bag w ''token'') of
                  None \<Rightarrow> (Panicked (InterfaceConversion ''token''), w)
                | Some token \<Rightarrow>
                    if NoDeleteVM config then
                      (let w1 = Say ''We are skipping the deletion of the builder VM and its configuration because of do_not_delete being set.'' w
                       in (Returned (),
                           if ImagePrecopy config then
                             Say (''Pre-copy was performed: image '' @ ImageName config
                                    @ '' will be left and not removed'') w1
                           else w1))
                    else if failed s then
                      (if ImagePrecopy config then
                         (case precopyImageDelete ext
                                 (Say (''Pre-copy was performed: cleaning up pre-copied image ''
                                         @ ImageName config) w) of
                            (Panicked p, w1) \<Rightarrow> (Panicked p, w1)
                          | (Returned (Some e), w1) \<Rightarrow> (Returned (), w1)
                          | (Returned None, w1) \<Rightarrow>
                              (Returned (),
                               Say ''Nothing to cleanup: the builder VM creation, deployment and/or provisioning failed.'' w1))
                       else
                         (Returned (),
                          Say ''Nothing to cleanup: the builder VM creation, deployment and/or provisioning failed.'' w))
                    else
                      (let w1 = Say ''Removing builder VM and its configuration...'' w
                       in case NewRequest ext ''DELETE'' (OrkaEndpoint config @ ''/'' @ ''resources/vm/purge'')
                                 (VMPurgeRequest (OrkaVMBuilderName config)) of
                            None \<Rightarrow> (Panicked NilPointerDereference, w1)
                          | Some req0 \<Rightarrow>
                              let req = set_header ''Authorization'' (''Bearer '' @ token)
                                          (set_header ''Content-Type'' ''application/json'' req0);
                                  ((resp, err), w2) = Do ext req w1;
                                  w3 = (case err of
                                          Some e0 \<Rightarrow>
                                            Put ''error'' (VError e0)
                                              (Error (OrkaAPIRequestErrorMessage ext @ '' ['' @ e0 @ '']'') w2)
                                        | None \<Rightarrow> w2)
                              in (case resp of
                                    None \<Rightarrow> (Panicked NilPointerDereference, w3)
                                  | Some r \<Rightarrow>
                                      if StatusCode r \<noteq> 200 then
                                        (Returned (),
                                         Error (OrkaAPIResponseErrorMessage ext @ '' ['' @ Status r @ '']'') w3)
                                      else
                                        (Returned (), Say ''Builder VM and configuration purged'' w3))))))"

section \<open>The step that creates the image\<close>

text \<open>
  \<open>stepCreateImage.Run\<close>. Its struct is never touched. The four type assertions come
  before the test of \<open>NoCreateImage\<close>. The five-minute timeout of the client shows only
  as one more way for \<open>client.Do\<close> to return an error.
\<close>

definition stepCreateImage_Run :: "extern \<Rightarrow> world \<Rightarrow> StepAction outcome \<times> world" where
  "stepCreateImage_Run ext w =
     (case as_Config (bag w ''config'') of
        None \<Rightarrow> (Panicked (InterfaceConversion ''config''), w)
      | Some config \<Rightarrow>
     (case as_Ui (bag w ''ui'') of
        None \<Rightarrow> (Panicked (InterfaceConversion ''ui''), w)
      | Some _ \<Rightarrow>
     (case as_string (bag w ''vmid'') of
        None \<Rightarrow> (Panicked (InterfaceConversion ''vmid''), w)
      | Some vmid \<Rightarrow>
     (case as_string (bag w ''token'') of
        None \<Rightarrow> (Panicked (InterfaceConversion ''token''), w)
      | Some token \<Rightarrow>
          if NoCreateImage config then
            (Returned ActionContinue,
             Say ''Skipping image creation because of 'no_create_image' being set.'' w)
          else
            let w1 = Say (''Image creation is using VM ID ['' @ vmid @ '']'') w;
                w2 = Say (''Image name is ['' @ ImageName config @ '']'') w1;
                w3 = Say ''Please wait as this can take a little while...'' w2
            in if ImagePrecopy config then
                 (let w4 = Say ''Committing existing image since pre-copy is being used'' w3
                  in case NewRequest ext ''POST'' (OrkaEndpoint config @ ''/'' @ ''resources/image/commit'')
                            (ImageCommitRequest vmid) of
                       None \<Rightarrow> (Panicked NilPointerDereference, w4)
                     | Some req0 \<Rightarrow>
                         let req = set_header ''Authorization'' (''Bearer '' @ token)
                                     (set_header ''Content-Type'' ''application/json'' req0);
                             ((resp, err), w5) = Do ext req w4
                         in (case err of
                               Some e \<Rightarrow>
                                 (Returned ActionHalt,
                                  Error (OrkaAPIRequestErrorMessage ext @ '' ['' @ e @ '']'') w5)
                             | None \<Rightarrow>
                                 (case resp of
                                    None \<Rightarrow> (Panicked NilPointerDereference, w5)
                                  | Some r \<Rightarrow>
                                      if StatusCode r \<noteq> 200 then
                                        (Returned ActionContinue,
                                         Error (''Error committing image ['' @ Status r @ '']'') w5)
                                      else
                                        (Returned ActionContinue,
                                         Say (''Image comitted ['' @ Status r @ ''] [''
                                                @ unmarshal_CommitMessage ext (Body r) @ '']'') w5))))
               else
                 (let w4 = Say (''Saving new image ['' @ ImageName config @ '']'') w3
                  in case NewRequest ext ''POST'' (OrkaEndpoint config @ ''/'' @ ''resources/image/save'')
                            (ImageSaveRequest vmid (ImageName config)) of
                       None \<Rightarrow> (Panicked NilPointerDereference, w4)
                     | Some req0 \<Rightarrow>
                         let req = set_header ''Authorization'' (''Bearer '' @ token)
                                     (set_header ''Content-Type'' ''application/json'' req0);
                             ((resp, err), w5) = Do ext req w4
                         in (case err of
                               Some e \<Rightarrow>
                                 (Returned ActionHalt,
                                  Error (OrkaAPIRequestErrorMessage ext @ '' ['' @ e @ '']'') w5)
                             | None \<Rightarrow>
                                 (case resp of
                                    None \<Rightarrow> (Panicked NilPointerDereference, w5)
                                  | Some r \<Rightarrow>
                                      if StatusCode r \<noteq> 200 then
                                        (Returned ActionHalt,
                                         Error (OrkaAPIResponseErrorMessage ext @ '' ['' @ Status r @ '']'') w5)
                                      else
                                        (Returned ActionContinue,
                                         Say (''Image saved ['' @ Status r @ ''] [''
                                                @ unmarshal_SaveMessage ext (Body r) @ '']'') w5))))))))"

text \<open>
  \<open>stepCreateImage.Cleanup\<close>: no request is made. \<open>GetOk\<close> tells whether a key is
  present; the runner's keys are \<open>cancelled\<close> and \<open>halted\<close>.
\<close>

definition stepCreateImage_Cleanup :: "world \<Rightarrow> unit outcome \<times> world" where
  "stepCreateImage_Cleanup w =
     (case as_Ui (bag w ''ui'') of
        None \<Rightarrow> (Panicked (InterfaceConversion ''ui''), w)
      | Some _ \<Rightarrow>
          (case as_string (bag w ''vmid'') of
             None \<Rightarrow> (Panicked (InterfaceConversion ''vmid''), w)
           | Some vmid \<Rightarrow>
               if vmid = [] then (Returned (), w)
               else
                 let cancelled = (bag w ''cancelled'' \<noteq> None);
                     halted = (bag w ''halted'' \<noteq> None)
                 in if \<not> cancelled \<and> \<not> halted then (Returned (), w)
                    else (Returned (), Say ''Image cleanup complete.'' w)))"

section \<open>Observations on a run\<close>

text \<open>
  The request as it reaches \<open>client.Do\<close> at every call site but the login: the two
  headers set on a fresh request.
\<close>

definition bearer_request :: "string \<Rightarrow> string \<Rightarrow> string \<Rightarrow> request_data \<Rightarrow> http_request" where
  "bearer_request m u token d =
     \<lparr>Method = m, URL = u,
      Header = [(''Content-Type'', ''application/json''), (''Authorization'', ''Bearer '' @ token)],
      Payload = d\<rparr>"

definition login_request :: "Config \<Rightarrow> http_request" where
  "login_request config =
     \<lparr>Method = ''POST'', URL = OrkaEndpoint config @ ''/token'',
      Header = [(''Content-Type'', ''application/json'')],
      Payload = TokenLoginRequest (OrkaUser config) (OrkaPassword config)\<rparr>"

definition copy_request :: "Config \<Rightarrow> string \<Rightarrow> http_request" where
  "copy_request config token =
     bearer_request ''POST'' (OrkaEndpoint config @ ''/resources/image/copy'') token
       (ImageCopyRequest (SourceImage config) (ImageName config))"

definition create_request :: "Config \<Rightarrow> string \<Rightarrow> string \<Rightarrow> http_request" where
  "create_request config token actualImage =
     bearer_request ''POST'' (OrkaEndpoint config @ ''/resources/vm/create'') token
       (VMCreateRequest (OrkaVMBuilderName config) actualImage (OrkaVMBuilderName config)
          (OrkaVMCPUCore config) (OrkaVMCPUCore config))"

definition deploy_request :: "Config \<Rightarrow> string \<Rightarrow> http_request" where
  "deploy_request config token =
     bearer_request ''POST'' (OrkaEndpoint config @ ''/resources/vm/deploy'') token
       (VMDeployRequest (OrkaVMBuilderName config))"

definition commit_request :: "Config \<Rightarrow> string \<Rightarrow> string \<Rightarrow> http_request" where
  "commit_request config token vmid =
     bearer_request ''POST'' (OrkaEndpoint config @ ''/resources/image/commit'') token
       (ImageCommitRequest vmid)"

definition save_request :: "Config \<Rightarrow> string \<Rightarrow> string \<Rightarrow> http_request" where
  "save_request config token vmid =
     bearer_request ''POST'' (OrkaEndpoint config @ ''/resources/image/save'') token
       (ImageSaveRequest vmid (ImageName config))"

fun is_UiError :: "ui_msg \<Rightarrow> bool" where
  "is_UiError (UiError m) = True"
| "is_UiError (UiSay m) = False"

fun is_TokenLogin :: "request_data \<Rightarrow> bool" where
  "is_TokenLogin (TokenLoginRequest u p) = True"
| "is_TokenLogin _ = False"

fun is_VMDeploy :: "request_data \<Rightarrow> bool" where
  "is_VMDeploy (VMDeployRequest n) = True"
| "is_VMDeploy _ = False"

fun is_VMPurge :: "request_data \<Rightarrow> bool" where
  "is_VMPurge (VMPurgeRequest n) = True"
| "is_VMPurge _ = False"

definition purge_calls :: "http_request list \<Rightarrow> http_request list" where
  "purge_calls rs = filter (\<lambda>r. is_VMPurge (Payload r)) rs"

definition purge_request :: "Config \<Rightarrow> string \<Rightarrow> http_request" where
  "purge_request config token =
     bearer_request ''DELETE'' (OrkaEndpoint config @ ''/resources/vm/purge'') token
       (VMPurgeRequest (OrkaVMBuilderName config))"

definition login_calls :: "http_request list \<Rightarrow> http_request list" where
  "login_calls rs = filter (\<lambda>r. is_TokenLogin (Payload r)) rs"

text \<open>The requests a step made: what it appended to the log it started from.\<close>

definition issued :: "world \<Rightarrow> world \<Rightarrow> http_request list" where
  "issued w w' = drop (length (http_log w)) (http_log w')"

text \<open>
  The deploy call succeeded: the last request of the step is a deploy request and its
  response, present, has status 200.
\<close>

definition deploy_answered_200 :: "extern \<Rightarrow> http_request list \<Rightarrow> bool" where
  "deploy_answered_200 ext rs =
     (rs \<noteq> [] \<and> is_VMDeploy (Payload (last rs)) \<and>
      (case fst (client_Do ext (last rs)) of None \<Rightarrow> False | Some dr \<Rightarrow> StatusCode dr = 200))"

text \<open>The VM identifier decoded from the answer to the last request.\<close>

definition decoded_vmid :: "extern \<Rightarrow> http_request list \<Rightarrow> bag_value option" where
  "decoded_vmid ext rs =
     (case fst (client_Do ext (last rs)) of
        None \<Rightarrow> None
      | Some dr \<Rightarrow> Some (VString (VMId (unmarshal_VMDeployResponse ext (Body dr)))))"

text \<open>
  How the entry \<open>vmid\<close> of the bag depends on the deploy call, for a step that started in
  \<open>w\<close> and ended with \<open>res\<close>: the log was only extended; the step returned continue
  exactly when the deploy call succeeded; and \<open>vmid\<close> is then the decoded identifier, and
  otherwise what it was.
\<close>

definition vmid_follows_deploy ::
  "extern \<Rightarrow> world \<Rightarrow> StepAction outcome \<times> stepOrkaCreate \<times> world \<Rightarrow> bool" where
  "vmid_follows_deploy ext w res =
     (take (length (http_log w)) (http_log (snd (snd res))) = http_log w \<and>
      (fst res = Returned ActionContinue) = deploy_answered_200 ext (issued w (snd (snd res))) \<and>
      bag (snd (snd res)) ''vmid'' =
        (if fst res = Returned ActionContinue then decoded_vmid ext (issued w (snd (snd res)))
         else bag w ''vmid''))"

section \<open>Concrete runs\<close>

definition example_config :: Config where
  "example_config =
     \<lparr>OrkaEndpoint = ''http://orka'', OrkaUser = ''admin'', OrkaPassword = ''secret'',
      SourceImage = ''base.img'', ImageName = ''packed.img'', OrkaVMBuilderName = ''builder'',
      OrkaVMCPUCore = 3, ImagePrecopy = False, NoCreateImage = False, NoDeleteVM = False\<rparr>"

text \<open>
  An environment that answers by URL, takes the whole body for the token, for the VM
  identifier and for the message, and always reports the same address and port.
\<close>

definition example_extern :: "(string \<Rightarrow> http_response option \<times> error option) \<Rightarrow> extern" where
  "example_extern answer =
     \<lparr>OrkaAPIRequestErrorMessage = ''request failed'',
      OrkaAPIResponseErrorMessage = ''bad response'',
      url_parses = (\<lambda>u. True),
      client_Do = (\<lambda>req. answer (URL req)),
      unmarshal_Token = (\<lambda>b. b),
      unmarshal_VMDeployResponse = (\<lambda>b. \<lparr>VMId = b, IP = ''10.0.0.5'', SSHPort = ''2222''\<rparr>),
      unmarshal_CommitMessage = (\<lambda>b. b),
      unmarshal_SaveMessage = (\<lambda>b. b)\<rparr>"

definition example_world :: "Config \<Rightarrow> world" where
  "example_world c =
     \<lparr>bag = [''config'' \<mapsto> VConfig c, ''ui'' \<mapsto> VUi], ui_log = [], http_log = []\<rparr>"

definition response :: "int \<Rightarrow> string \<Rightarrow> string \<Rightarrow> http_response option \<times> error option" where
  "response c st b = (Some \<lparr>StatusCode = c, Status = st, Body = b\<rparr>, None)"

definition new_step :: stepOrkaCreate where
  "new_step = \<lparr>failed = False, precopyFailed = False\<rparr>"

text \<open>Every call succeeds: login, copy, create, deploy and whatever follows.\<close>

definition all_succeed :: "string \<Rightarrow> http_response option \<times> error option" where
  "all_succeed u =
     (if u = ''http://orka/token'' then response 200 ''200 OK'' ''tok''
      else if u = ''http://orka/resources/vm/create'' then response 201 ''201 Created'' []
      else if u = ''http://orka/resources/vm/deploy'' then response 200 ''200 OK'' ''vm-1''
      else response 200 ''200 OK'' [])"

text \<open>
  The runner on a fresh step and a bag holding the configuration and the interface:
  \<open>Run\<close>, then \<open>Cleanup\<close> on the step and the world \<open>Run\<close> left.
\<close>

definition run_of :: "extern \<Rightarrow> Config \<Rightarrow> StepAction outcome \<times> stepOrkaCreate \<times> world" where
  "run_of ext c = stepOrkaCreate_Run ext new_step (example_world c)"

definition cleanup_after :: "extern \<Rightarrow> Config \<Rightarrow> unit outcome \<times> world" where
  "cleanup_after ext c =
     stepOrkaCreate_Cleanup ext (fst (snd (run_of ext c))) (snd (snd (run_of ext c)))"

definition precopy_config :: Config where
  "precopy_config = example_config\<lparr>ImagePrecopy := True\<rparr>"

definition keep_vm_config :: Config where
  "keep_vm_config = example_config\<lparr>NoDeleteVM := True\<rparr>"

definition create_rejected :: extern where
  "create_rejected = example_extern
     (all_succeed(''http://orka/resources/vm/create'' := response 500 ''500 Internal Server Error'' []))"

definition copy_rejected :: extern where
  "copy_rejected = example_extern
     (all_succeed(''http://orka/resources/image/copy'' := response 500 ''500 Internal Server Error'' []))"

definition purge_unreachable :: extern where
  "purge_unreachable = example_extern
     (all_succeed(''http://orka/resources/vm/purge'' := (None, Some ''connection refused'')))"

definition deploy_unreachable :: extern where
  "deploy_unreachable = example_extern
     (all_succeed(''http://orka/resources/vm/deploy'' := (None, Some ''connection refused'')))"

definition login_unreachable :: extern where
  "login_unreachable = example_extern
     (all_succeed(''http://orka/token'' := (None, Some ''connection refused'')))"

definition login_rejected :: extern where
  "login_rejected = example_extern
     (all_succeed(''http://orka/token'' := response 401 ''401 Unauthorized'' []))"

definition deploy_without_id :: extern where
  "deploy_without_id = example_extern
     (all_succeed(''http://orka/resources/vm/deploy'' := response 200 ''200 OK'' []))"

definition image_rejected :: extern where
  "image_rejected = example_extern
     ((all_succeed(''http://orka/resources/image/save'' := response 500 ''500 Internal Server Error'' []))
        (''http://orka/resources/image/commit'' := response 500 ''500 Internal Server Error'' []))"

text \<open>The bag after a successful create step: token and VM identifier are stored.\<close>

definition deployed_world :: "Config \<Rightarrow> world" where
  "deployed_world c =
     \<lparr>bag = [''config'' \<mapsto> VConfig c, ''ui'' \<mapsto> VUi, ''token'' \<mapsto> VString ''tok'',
             ''vmid'' \<mapsto> VString ''vm-1''],
      ui_log = [], http_log = []\<rparr>"

text \<open>The bag after a deploy whose answer carried no identifier.\<close>

definition empty_vmid_world :: "Config \<Rightarrow> world" where
  "empty_vmid_world c =
     \<lparr>bag = [''config'' \<mapsto> VConfig c, ''ui'' \<mapsto> VUi, ''token'' \<mapsto> VString ''tok'',
             ''vmid'' \<mapsto> VString []],
      ui_log = [], http_log = []\<rparr>"

section \<open>Properties\<close>

text \<open>The two keys the steps set are in canonical form already.\<close>

lemma canonical_keys [simp]:
  "CanonicalMIMEHeaderKey ''Content-Type'' = ''Content-Type''"
  "CanonicalMIMEHeaderKey ''Authorization'' = ''Authorization''"
  by (simp_all add: CanonicalMIMEHeaderKey_def validHeaderFieldByte_def to_upper_def to_lower_def)

lemmas run_defs = stepOrkaCreate_Run_def createOrkaToken_def Run_image_def Run_create_def
  Run_deploy_def Run_store_def

lemmas lib_defs = NewRequest_def set_header_def Header_Set_def Do_def Say_def Error_def Put_def

lemmas example_defs = example_config_def example_extern_def example_world_def response_def
  new_step_def all_succeed_def run_of_def cleanup_after_def precopy_config_def keep_vm_config_def
  create_rejected_def copy_rejected_def purge_unreachable_def deploy_unreachable_def
  login_unreachable_def login_rejected_def deploy_without_id_def image_rejected_def
  deployed_world_def

lemmas request_defs = bearer_request_def login_request_def copy_request_def create_request_def
  deploy_request_def commit_request_def save_request_def purge_request_def

lemmas atoi_defs = Atoi_def ParseUint_def digit_val_def

subsection \<open>Cleanup after a failure with pre-copy\<close>

text \<open>
  C1. Pre-copy is on, the copy succeeds and the create call is answered 500, so \<open>Run\<close>
  halts with \<open>failed\<close> set. \<open>Cleanup\<close> then makes one request, an image delete, and no
  purge; but the image it names is the builder VM name \<open>builder\<close>, while the destination
  image of the configuration, the one that was pre-copied, is \<open>packed.img\<close>.
\<close>

theorem C1_image_delete_names_builder_vm:
  "fst (run_of create_rejected precopy_config) = Returned ActionHalt \<and>
   failed (fst (snd (run_of create_rejected precopy_config))) = True \<and>
   map Payload (http_log (snd (snd (run_of create_rejected precopy_config)))) =
     [TokenLoginRequest ''admin'' ''secret'', ImageCopyRequest ''base.img'' ''packed.img'',
      VMCreateRequest ''builder'' ''packed.img'' ''builder'' 3 3] \<and>
   fst (cleanup_after create_rejected precopy_config) = Returned () \<and>
   map Payload (http_log (snd (cleanup_after create_rejected precopy_config))) =
     [TokenLoginRequest ''admin'' ''secret'', ImageCopyRequest ''base.img'' ''packed.img'',
      VMCreateRequest ''builder'' ''packed.img'' ''builder'' 3 3, ImageDeleteRequest ''builder''] \<and>
   ImageName precopy_config = ''packed.img''"
  by (simp add: Let_def run_defs lib_defs example_defs stepOrkaCreate_Cleanup_def
      precopyImageDelete_def issued_def)

subsection \<open>Failure of the image copy\<close>

text \<open>
  C2. Pre-copy is on and the copy call is answered 500. \<open>Run\<close> halts after the login and
  the copy with \<open>failed\<close> set, and \<open>precopyFailed\<close> is still false.
\<close>

theorem C2_copy_status_leaves_precopyFailed:
  "fst (run_of copy_rejected precopy_config) = Returned ActionHalt \<and>
   failed (fst (snd (run_of copy_rejected precopy_config))) = True \<and>
   precopyFailed (fst (snd (run_of copy_rejected precopy_config))) = False \<and>
   map Payload (http_log (snd (snd (run_of copy_rejected precopy_config)))) =
     [TokenLoginRequest ''admin'' ''secret'', ImageCopyRequest ''base.img'' ''packed.img'']"
  by (simp add: Let_def run_defs lib_defs example_defs)

subsection \<open>Transport errors on purge and deploy\<close>

text \<open>
  C3. The run succeeds, then the purge call cannot reach the API. \<open>Cleanup\<close> reports the
  request error and then panics on the nil response instead of returning.
\<close>

theorem C3_purge_transport_error_panics:
  "fst (run_of purge_unreachable example_config) = Returned ActionContinue \<and>
   failed (fst (snd (run_of purge_unreachable example_config))) = False \<and>
   fst (cleanup_after purge_unreachable example_config) = Panicked NilPointerDereference \<and>
   last (ui_log (snd (cleanup_after purge_unreachable example_config)))
     = UiError ''request failed [connection refused]'' \<and>
   map Payload (http_log (snd (cleanup_after purge_unreachable example_config))) =
     [TokenLoginRequest ''admin'' ''secret'',
      VMCreateRequest ''builder'' ''base.img'' ''builder'' 3 3, VMDeployRequest ''builder'',
      VMPurgeRequest ''builder'']"
  by (simp add: Let_def run_defs lib_defs example_defs atoi_defs stepOrkaCreate_Cleanup_def issued_def)

text \<open>
  C4. Login and create succeed, then the deploy call cannot reach the API. \<open>Run\<close> panics
  on the nil response: nothing is reported as an error, no error is stored, and the step
  does not return an action.
\<close>

theorem C4_deploy_transport_error_panics:
  "fst (run_of deploy_unreachable example_config) = Panicked NilPointerDereference \<and>
   filter is_UiError (ui_log (snd (snd (run_of deploy_unreachable example_config)))) = [] \<and>
   bag (snd (snd (run_of deploy_unreachable example_config))) ''error'' = None \<and>
   map Payload (http_log (snd (snd (run_of deploy_unreachable example_config)))) =
     [TokenLoginRequest ''admin'' ''secret'',
      VMCreateRequest ''builder'' ''base.img'' ''builder'' 3 3, VMDeployRequest ''builder'']"
  by (simp add: Let_def run_defs lib_defs example_defs)

subsection \<open>Cleanup when the VM is to be kept\<close>

text \<open>
  C9. With \<open>NoDeleteVM\<close> set, \<open>Cleanup\<close> of the create step makes no request at all,
  whatever the step struct holds (\<open>failed\<close> or not), whatever the environment, and whether
  it returns or panics on a missing token.
\<close>

theorem C9_no_request_when_NoDeleteVM:
  assumes "as_Config (bag w ''config'') = Some config" and "NoDeleteVM config"
  shows "http_log (snd (stepOrkaCreate_Cleanup ext s w)) = http_log w"
  using assms
  by (simp add: stepOrkaCreate_Cleanup_def Say_def split: option.splits)

theorem C9_witness:
  "fst (stepOrkaCreate_Cleanup (example_extern all_succeed) new_step (deployed_world keep_vm_config))
     = Returned () \<and>
   http_log (snd (stepOrkaCreate_Cleanup (example_extern all_succeed) new_step
                    (deployed_world keep_vm_config))) = [] \<and>
   fst (stepOrkaCreate_Cleanup (example_extern all_succeed) \<lparr>failed = True, precopyFailed = False\<rparr>
          (deployed_world (keep_vm_config\<lparr>ImagePrecopy := True\<rparr>)))
     = Returned () \<and>
   http_log (snd (stepOrkaCreate_Cleanup (example_extern all_succeed)
                    \<lparr>failed = True, precopyFailed = False\<rparr>
                    (deployed_world (keep_vm_config\<lparr>ImagePrecopy := True\<rparr>)))) = []"
proof -
  have kept: "as_Config (bag (deployed_world keep_vm_config) ''config'') = Some keep_vm_config"
    "NoDeleteVM keep_vm_config"
    by (simp_all add: deployed_world_def keep_vm_config_def example_config_def)
  have kept_failed:
    "as_Config (bag (deployed_world (keep_vm_config\<lparr>ImagePrecopy := True\<rparr>)) ''config'')
       = Some (keep_vm_config\<lparr>ImagePrecopy := True\<rparr>)"
    "NoDeleteVM (keep_vm_config\<lparr>ImagePrecopy := True\<rparr>)"
    by (simp_all add: deployed_world_def keep_vm_config_def example_config_def)
  have returns: "fst (stepOrkaCreate_Cleanup (example_extern all_succeed) new_step
                        (deployed_world keep_vm_config)) = Returned ()"
    "fst (stepOrkaCreate_Cleanup (example_extern all_succeed) \<lparr>failed = True, precopyFailed = False\<rparr>
            (deployed_world (keep_vm_config\<lparr>ImagePrecopy := True\<rparr>))) = Returned ()"
    by (simp_all add: stepOrkaCreate_Cleanup_def Let_def Say_def deployed_world_def
        keep_vm_config_def example_config_def)
  have start: "http_log (deployed_world c) = []" for c
    by (simp add: deployed_world_def)
  show ?thesis
    using C9_no_request_when_NoDeleteVM [OF kept, of "example_extern all_succeed" new_step]
      C9_no_request_when_NoDeleteVM [OF kept_failed, of "example_extern all_succeed"
        "\<lparr>failed = True, precopyFailed = False\<rparr>"]
    by (simp add: returns start)
qed

subsection \<open>Cleanup after a failed login\<close>

text \<open>
  C10. No string is stored under \<open>token\<close> and the login call returns an error. \<open>Run\<close>
  halts with \<open>failed\<close> set and still no token in the bag, and \<open>Cleanup\<close> on that state
  panics at the type assertion, before it says or does anything, for every configuration,
  \<open>NoDeleteVM\<close> set or not.
\<close>

theorem C10_cleanup_panics_without_token:
  assumes "as_Config (bag w ''config'') = Some config" and "as_Ui (bag w ''ui'') = Some ()"
    and "as_string (bag w ''token'') = None"
    and "url_parses ext (OrkaEndpoint config @ ''/token'')"
    and "snd (client_Do ext (login_request config)) = Some e"
  shows "fst (stepOrkaCreate_Run ext s w) = Returned ActionHalt \<and>
         failed (fst (snd (stepOrkaCreate_Run ext s w))) \<and>
         as_string (bag (snd (snd (stepOrkaCreate_Run ext s w))) ''token'') = None \<and>
         stepOrkaCreate_Cleanup ext (fst (snd (stepOrkaCreate_Run ext s w)))
             (snd (snd (stepOrkaCreate_Run ext s w)))
           = (Panicked (InterfaceConversion ''token''), snd (snd (stepOrkaCreate_Run ext s w)))"
proof -
  obtain resp where d: "client_Do ext (login_request config) = (resp, Some e)"
    using assms(5) by (cases "client_Do ext (login_request config)") auto
  have run: "stepOrkaCreate_Run ext s w =
      (Returned ActionHalt, s\<lparr>failed := True\<rparr>,
       Put ''error'' (VError (''Error while logging into the Orka API: '' @ e))
         (Error (OrkaAPIRequestErrorMessage ext @ '' ['' @ ''Error while logging into the Orka API: '' @ e @ '']'')
            (Say ''Logging into Orka API endpoint'' w\<lparr>http_log := http_log w @ [login_request config]\<rparr>)))"
    using assms(1,2,4) d
    by (simp add: stepOrkaCreate_Run_def createOrkaToken_def lib_defs login_request_def)
  show ?thesis
    using assms(1,2,3)
    by (simp add: run stepOrkaCreate_Cleanup_def lib_defs)
qed

theorem C10_witness:
  "as_Config (bag (example_world keep_vm_config) ''config'') = Some keep_vm_config \<and>
   as_Ui (bag (example_world keep_vm_config) ''ui'') = Some () \<and>
   as_string (bag (example_world keep_vm_config) ''token'') = None \<and>
   url_parses login_unreachable (OrkaEndpoint keep_vm_config @ ''/token'') \<and>
   snd (client_Do login_unreachable (login_request keep_vm_config)) = Some ''connection refused'' \<and>
   NoDeleteVM keep_vm_config \<and>
   fst (run_of login_unreachable keep_vm_config) = Returned ActionHalt \<and>
   fst (cleanup_after login_unreachable keep_vm_config) = Panicked (InterfaceConversion ''token'')"
  using C10_cleanup_panics_without_token
    [of "example_world keep_vm_config" keep_vm_config login_unreachable "''connection refused''" new_step]
  by (simp add: example_defs login_request_def)

subsection \<open>Status of the image call in the create-image step\<close>

text \<open>
  C7. The create-image step, with image creation not switched off, sends the save request
  (pre-copy off) or the commit request (pre-copy on) and gets an answer whose status is not
  200. Either way the last thing written to the interface is an error; the save branch
  returns halt, the commit branch returns continue.
\<close>

theorem C7_create_image_status:
  assumes "as_Config (bag w ''config'') = Some config" and "as_Ui (bag w ''ui'') = Some ()"
    and "as_string (bag w ''vmid'') = Some vmid" and "as_string (bag w ''token'') = Some token"
    and "NoCreateImage config = False"
    and "req = (if ImagePrecopy config then commit_request config token vmid
                else save_request config token vmid)"
    and "url_parses ext (URL req)"
    and "client_Do ext req = (Some r, None)"
    and "StatusCode r \<noteq> 200"
  shows "fst (stepCreateImage_Run ext w)
           = Returned (if ImagePrecopy config then ActionContinue else ActionHalt) \<and>
         http_log (snd (stepCreateImage_Run ext w)) = http_log w @ [req] \<and>
         last (ui_log (snd (stepCreateImage_Run ext w)))
           = UiError (if ImagePrecopy config then ''Error committing image ['' @ Status r @ '']''
                      else OrkaAPIResponseErrorMessage ext @ '' ['' @ Status r @ '']'')"
proof (cases "ImagePrecopy config")
  case True
  with assms show ?thesis
    by (simp add: stepCreateImage_Run_def lib_defs request_defs issued_def)
next
  case False
  with assms show ?thesis
    by (simp add: stepCreateImage_Run_def lib_defs request_defs issued_def)
qed

theorem C7_witness:
  "fst (stepCreateImage_Run image_rejected (deployed_world example_config)) = Returned ActionHalt \<and>
   last (ui_log (snd (stepCreateImage_Run image_rejected (deployed_world example_config))))
     = UiError ''bad response [500 Internal Server Error]'' \<and>
   fst (stepCreateImage_Run image_rejected (deployed_world precopy_config)) = Returned ActionContinue \<and>
   last (ui_log (snd (stepCreateImage_Run image_rejected (deployed_world precopy_config))))
     = UiError ''Error committing image [500 Internal Server Error]''"
  using
    C7_create_image_status
      [of "deployed_world example_config" example_config "''vm-1''" "''tok''"
          "save_request example_config ''tok'' ''vm-1''" image_rejected
          "\<lparr>StatusCode = 500, Status = ''500 Internal Server Error'', Body = []\<rparr>"]
    C7_create_image_status
      [of "deployed_world precopy_config" precopy_config "''vm-1''" "''tok''"
          "commit_request precopy_config ''tok'' ''vm-1''" image_rejected
          "\<lparr>StatusCode = 500, Status = ''500 Internal Server Error'', Body = []\<rparr>"]
  by (simp add: example_defs request_defs)

subsection \<open>What a successful deploy leaves in the bag\<close>

lemma Run_store_result:
  "Run_store d s w =
     (Returned ActionContinue, s,
      w\<lparr>bag := (bag w)(''vmid'' \<mapsto> VString (VMId d), ''ssh_port'' \<mapsto> VInt (fst (Atoi (SSHPort d))),
                      ''ssh_host'' \<mapsto> VString (IP d)),
        ui_log := ui_log w @ [UiSay (''Created VM ['' @ VMId d @ '']''),
                   UiSay (''SSH server will be available at ['' @ IP d @ '':'' @ SSHPort d @ '']'')]\<rparr>)"
  by (simp add: Run_store_def lib_defs)

lemma Run_deploy_200:
  assumes "url_parses ext (URL (deploy_request config token))"
    and "fst (client_Do ext (deploy_request config token)) = Some dr"
    and "StatusCode dr = 200"
  shows "Run_deploy ext config token s w =
           Run_store (unmarshal_VMDeployResponse ext (Body dr)) s
             (Say (''Creating builder VM based on ['' @ OrkaVMBuilderName config @ ''] configuration'') w
                \<lparr>http_log := http_log w @ [deploy_request config token]\<rparr>)"
proof -
  obtain err where "client_Do ext (deploy_request config token) = (Some dr, err)"
    using assms(2) by (cases "client_Do ext (deploy_request config token)") auto
  with assms(1,3) show ?thesis
    by (simp add: Run_deploy_def lib_defs request_defs)
qed

lemma Run_create_201:
  assumes "url_parses ext (URL (create_request config token actualImage))"
    and "client_Do ext (create_request config token actualImage) = (Some vr, None)"
    and "StatusCode vr = 201"
  shows "Run_create ext config token actualImage s w =
           Run_deploy ext config token s
             (Say (''Created builder VM configuration ['' @ OrkaVMBuilderName config @ '']'')
                (Say (''Creating a Builder VM configuration ['' @ OrkaVMBuilderName config @ '']'') w
                   \<lparr>http_log := http_log w @ [create_request config token actualImage]\<rparr>))"
  using assms by (simp add: Run_create_def lib_defs request_defs)

lemma Run_image_enters_create:
  assumes "ImagePrecopy config \<and> \<not> NoCreateImage config \<longrightarrow>
             url_parses ext (URL (copy_request config token)) \<and>
             client_Do ext (copy_request config token) = (Some cr, None) \<and> StatusCode cr = 200"
  shows "\<exists>w'. Run_image ext config token s w =
           Run_create ext config token
             (if ImagePrecopy config \<and> \<not> NoCreateImage config then ImageName config
              else SourceImage config) s w'"
  using assms by (auto simp add: Run_image_def Let_def lib_defs request_defs)

lemma Run_login_ok:
  assumes "as_Config (bag w ''config'') = Some config" and "as_Ui (bag w ''ui'') = Some ()"
    and "url_parses ext (URL (login_request config))"
    and "client_Do ext (login_request config) = (Some lr, None)"
  shows "stepOrkaCreate_Run ext s w =
           Run_image ext config (unmarshal_Token ext (Body lr)) s
             (Put ''token'' (VString (unmarshal_Token ext (Body lr)))
                (Say ''Logged in with token''
                   (Say ''Logging into Orka API endpoint'' w
                      \<lparr>http_log := http_log w @ [login_request config]\<rparr>)))"
  using assms by (simp add: stepOrkaCreate_Run_def createOrkaToken_def lib_defs request_defs)

text \<open>
  C8. The run reaches the deploy call (login answered, copy answered 200 where pre-copy
  applies, create answered 201) and the deploy call is answered 200 with a body that
  decodes to VM identifier \<open>vm-1\<close>, address \<open>10.0.0.5\<close> and port \<open>2222\<close>. Then \<open>Run\<close>
  returns continue and the bag holds \<open>ssh_host\<close> \<open>10.0.0.5\<close>, \<open>ssh_port\<close> the integer
  2222, and \<open>vmid\<close> \<open>vm-1\<close>.
\<close>

theorem C8_deploy_response_round_trip:
  assumes "as_Config (bag w ''config'') = Some config" and "as_Ui (bag w ''ui'') = Some ()"
    and "url_parses ext (URL (login_request config))"
    and "client_Do ext (login_request config) = (Some lr, None)"
    and "token = unmarshal_Token ext (Body lr)"
    and "ImagePrecopy config \<and> \<not> NoCreateImage config \<longrightarrow>
           url_parses ext (URL (copy_request config token)) \<and>
           client_Do ext (copy_request config token) = (Some cr, None) \<and> StatusCode cr = 200"
    and "actualImage = (if ImagePrecopy config \<and> \<not> NoCreateImage config then ImageName config
                        else SourceImage config)"
    and "url_parses ext (URL (create_request config token actualImage))"
    and "client_Do ext (create_request config token actualImage) = (Some vr, None)"
    and "StatusCode vr = 201"
    and "url_parses ext (URL (deploy_request config token))"
    and "fst (client_Do ext (deploy_request config token)) = Some dr"
    and "StatusCode dr = 200"
    and "unmarshal_VMDeployResponse ext (Body dr)
           = \<lparr>VMId = ''vm-1'', IP = ''10.0.0.5'', SSHPort = ''2222''\<rparr>"
  shows "fst (stepOrkaCreate_Run ext s w) = Returned ActionContinue \<and>
         bag (snd (snd (stepOrkaCreate_Run ext s w))) ''ssh_host'' = Some (VString ''10.0.0.5'') \<and>
         bag (snd (snd (stepOrkaCreate_Run ext s w))) ''ssh_port'' = Some (VInt 2222) \<and>
         bag (snd (snd (stepOrkaCreate_Run ext s w))) ''vmid'' = Some (VString ''vm-1'')"
proof -
  have port: "fst (Atoi ''2222'') = 2222"
    by (simp add: atoi_defs)
  obtain w1 where "stepOrkaCreate_Run ext s w = Run_image ext config token s w1"
    using Run_login_ok [OF assms(1-4)] assms(5) by simp
  moreover obtain w2 where "Run_image ext config token s w1 = Run_create ext config token actualImage s w2"
    using Run_image_enters_create [OF assms(6)] assms(7) by auto
  moreover obtain w3 where "Run_create ext config token actualImage s w2 = Run_deploy ext config token s w3"
    using Run_create_201 [OF assms(8-10)] by simp
  moreover obtain w4 where "Run_deploy ext config token s w3
      = Run_store \<lparr>VMId = ''vm-1'', IP = ''10.0.0.5'', SSHPort = ''2222''\<rparr> s w4"
    using Run_deploy_200 [OF assms(11-13)] assms(14) by simp
  ultimately show ?thesis
    by (simp add: Run_store_result port)
qed

theorem C8_witness:
  "fst (run_of (example_extern all_succeed) precopy_config) = Returned ActionContinue \<and>
   bag (snd (snd (run_of (example_extern all_succeed) precopy_config))) ''ssh_host''
     = Some (VString ''10.0.0.5'') \<and>
   bag (snd (snd (run_of (example_extern all_succeed) precopy_config))) ''ssh_port''
     = Some (VInt 2222) \<and>
   bag (snd (snd (run_of (example_extern all_succeed) precopy_config))) ''vmid''
     = Some (VString ''vm-1'')"
proof -
  let ?ext = "example_extern all_succeed"
  let ?w = "example_world precopy_config"
  have cfg: "as_Config (bag ?w ''config'') = Some precopy_config"
    and ui: "as_Ui (bag ?w ''ui'') = Some ()"
    by (simp_all add: example_world_def)
  have urls: "url_parses ?ext (URL (login_request precopy_config))"
    "url_parses ?ext (URL (copy_request precopy_config ''tok''))"
    "url_parses ?ext (URL (create_request precopy_config ''tok'' ''packed.img''))"
    "url_parses ?ext (URL (deploy_request precopy_config ''tok''))"
    by (simp_all add: example_extern_def)
  have login: "client_Do ?ext (login_request precopy_config)
      = (Some \<lparr>StatusCode = 200, Status = ''200 OK'', Body = ''tok''\<rparr>, None)"
    by (simp add: example_defs request_defs)
  have tok: "''tok'' = unmarshal_Token ?ext (Body \<lparr>StatusCode = 200, Status = ''200 OK'', Body = ''tok''\<rparr>)"
    by (simp add: example_extern_def)
  have copy: "ImagePrecopy precopy_config \<and> \<not> NoCreateImage precopy_config \<longrightarrow>
      url_parses ?ext (URL (copy_request precopy_config ''tok'')) \<and>
      client_Do ?ext (copy_request precopy_config ''tok'')
        = (Some \<lparr>StatusCode = 200, Status = ''200 OK'', Body = []\<rparr>, None) \<and>
      StatusCode \<lparr>StatusCode = 200, Status = ''200 OK'', Body = []\<rparr> = 200"
    by (simp add: example_defs request_defs)
  have img: "''packed.img'' = (if ImagePrecopy precopy_config \<and> \<not> NoCreateImage precopy_config
      then ImageName precopy_config else SourceImage precopy_config)"
    by (simp add: example_defs)
  have create: "client_Do ?ext (create_request precopy_config ''tok'' ''packed.img'')
      = (Some \<lparr>StatusCode = 201, Status = ''201 Created'', Body = []\<rparr>, None)"
    by (simp add: example_defs request_defs)
  have deploy: "fst (client_Do ?ext (deploy_request precopy_config ''tok''))
      = Some \<lparr>StatusCode = 200, Status = ''200 OK'', Body = ''vm-1''\<rparr>"
    by (simp add: example_defs request_defs)
  have body: "unmarshal_VMDeployResponse ?ext
      (Body \<lparr>StatusCode = 200, Status = ''200 OK'', Body = ''vm-1''\<rparr>)
      = \<lparr>VMId = ''vm-1'', IP = ''10.0.0.5'', SSHPort = ''2222''\<rparr>"
    by (simp add: example_extern_def)
  show ?thesis
    unfolding run_of_def
    by (rule C8_deploy_response_round_trip
          [OF cfg ui urls(1) login tok copy img urls(3) create _ urls(4) deploy _ body]) simp_all
qed

subsection \<open>The login\<close>

text \<open>
  The parts of \<open>Run\<close> after the login make no login call and leave the stored token
  alone.
\<close>

lemma login_calls_append [simp]: "login_calls (xs @ ys) = login_calls xs @ login_calls ys"
  by (simp add: login_calls_def)

lemma login_calls_other [simp]: "is_TokenLogin (Payload r) = False \<Longrightarrow> login_calls [r] = []"
  by (simp add: login_calls_def)

lemma Run_store_keeps:
  "login_calls (http_log (snd (snd (Run_store d s w)))) = login_calls (http_log w)"
  "bag (snd (snd (Run_store d s w))) ''token'' = bag w ''token''"
  by (simp_all add: Run_store_def Let_def lib_defs)

lemma Run_deploy_keeps:
  "login_calls (http_log (snd (snd (Run_deploy ext config token s w)))) = login_calls (http_log w)"
  "bag (snd (snd (Run_deploy ext config token s w))) ''token'' = bag w ''token''"
  by (simp_all add: Run_deploy_def Let_def lib_defs Run_store_keeps
      split: option.splits prod.splits)

lemma Run_create_keeps:
  "login_calls (http_log (snd (snd (Run_create ext config token img s w)))) = login_calls (http_log w)"
  "bag (snd (snd (Run_create ext config token img s w))) ''token'' = bag w ''token''"
  by (simp_all add: Run_create_def Let_def lib_defs Run_deploy_keeps
      split: option.splits prod.splits)

lemma Run_image_keeps:
  "login_calls (http_log (snd (snd (Run_image ext config token s w)))) = login_calls (http_log w)"
  "bag (snd (snd (Run_image ext config token s w))) ''token'' = bag w ''token''"
  by (simp_all add: Run_image_def Let_def lib_defs Run_create_keeps
      split: option.splits prod.splits)

text \<open>
  What the login does, for every run with the configuration and the interface in the bag
  and a login URL that parses: exactly one login call is made. If \<open>client.Do\<close> returns an
  error, the error is stored and reported, \<open>failed\<close> is set, the step halts having made
  no other request, and no token is stored. If it returns a response and no error, the
  status code of the response is not looked at: the token decoded from the body is stored
  and the step enters image selection.
\<close>

lemma login_call_outcomes:
  assumes "as_Config (bag w ''config'') = Some config" and "as_Ui (bag w ''ui'') = Some ()"
    and "url_parses ext (URL (login_request config))"
  shows "login_calls (http_log (snd (snd (stepOrkaCreate_Run ext s w))))
           = login_calls (http_log w) @ [login_request config] \<and>
         (case snd (client_Do ext (login_request config)) of
            Some e \<Rightarrow>
              fst (stepOrkaCreate_Run ext s w) = Returned ActionHalt \<and>
              failed (fst (snd (stepOrkaCreate_Run ext s w))) = True \<and>
              bag (snd (snd (stepOrkaCreate_Run ext s w))) ''error''
                = Some (VError (''Error while logging into the Orka API: '' @ e)) \<and>
              last (ui_log (snd (snd (stepOrkaCreate_Run ext s w))))
                = UiError (OrkaAPIRequestErrorMessage ext
                            @ '' [Error while logging into the Orka API: '' @ e @ '']'') \<and>
              bag (snd (snd (stepOrkaCreate_Run ext s w))) ''token'' = bag w ''token'' \<and>
              http_log (snd (snd (stepOrkaCreate_Run ext s w)))
                = http_log w @ [login_request config]
          | None \<Rightarrow>
              (case fst (client_Do ext (login_request config)) of
                 Some lr \<Rightarrow>
                   bag (snd (snd (stepOrkaCreate_Run ext s w))) ''token''
                     = Some (VString (unmarshal_Token ext (Body lr))) \<and>
                   stepOrkaCreate_Run ext s w =
                     Run_image ext config (unmarshal_Token ext (Body lr)) s
                       (Put ''token'' (VString (unmarshal_Token ext (Body lr)))
                          (Say ''Logged in with token''
                             (Say ''Logging into Orka API endpoint'' w
                                \<lparr>http_log := http_log w @ [login_request config]\<rparr>)))
               | None \<Rightarrow>
                   fst (stepOrkaCreate_Run ext s w) = Panicked NilPointerDereference))"
proof -
  have one: "login_calls [login_request config] = [login_request config]"
    by (simp add: login_calls_def login_request_def)
  obtain resp err where d: "client_Do ext (login_request config) = (resp, err)"
    by (cases "client_Do ext (login_request config)")
  show ?thesis
  proof (cases err)
    case (Some e)
    have halt: "stepOrkaCreate_Run ext s w =
        (Returned ActionHalt, s\<lparr>failed := True\<rparr>,
         Put ''error'' (VError (''Error while logging into the Orka API: '' @ e))
           (Error (OrkaAPIRequestErrorMessage ext @ '' ['' @ ''Error while logging into the Orka API: '' @ e @ '']'')
              (Say ''Logging into Orka API endpoint'' w\<lparr>http_log := http_log w @ [login_request config]\<rparr>)))"
      using assms d Some
      by (simp add: stepOrkaCreate_Run_def createOrkaToken_def lib_defs login_request_def)
    show ?thesis
      using d Some by (simp add: halt lib_defs issued_def one)
  next
    case None
    show ?thesis
    proof (cases resp)
      case nil: None
      have "fst (stepOrkaCreate_Run ext s w) = Panicked NilPointerDereference"
        and "http_log (snd (snd (stepOrkaCreate_Run ext s w))) = http_log w @ [login_request config]"
        using assms d None nil
        by (simp_all add: stepOrkaCreate_Run_def createOrkaToken_def lib_defs login_request_def)
      then show ?thesis
        using d None nil by (simp add: one)
    next
      case (Some lr)
      have run: "stepOrkaCreate_Run ext s w =
          Run_image ext config (unmarshal_Token ext (Body lr)) s
            (Put ''token'' (VString (unmarshal_Token ext (Body lr)))
               (Say ''Logged in with token''
                  (Say ''Logging into Orka API endpoint'' w
                     \<lparr>http_log := http_log w @ [login_request config]\<rparr>)))"
        using assms d None Some
        by (simp add: stepOrkaCreate_Run_def createOrkaToken_def lib_defs login_request_def)
      have "login_calls (http_log (snd (snd (stepOrkaCreate_Run ext s w))))
              = login_calls (http_log w) @ [login_request config]"
        and "bag (snd (snd (stepOrkaCreate_Run ext s w))) ''token''
              = Some (VString (unmarshal_Token ext (Body lr)))"
        unfolding run by (simp_all add: Run_image_keeps lib_defs one)
      then show ?thesis
        using d None Some run by simp
    qed
  qed
qed

lemma login_call_outcomes_example:
  "fst (run_of login_unreachable example_config) = Returned ActionHalt \<and>
   failed (fst (snd (run_of login_unreachable example_config))) = True \<and>
   bag (snd (snd (run_of login_unreachable example_config))) ''error''
     = Some (VError ''Error while logging into the Orka API: connection refused'') \<and>
   http_log (snd (snd (run_of login_unreachable example_config)))
     = [login_request example_config] \<and>
   login_calls (http_log (snd (snd (run_of login_rejected example_config))))
     = [login_request example_config] \<and>
   bag (snd (snd (run_of login_rejected example_config))) ''token'' = Some (VString [])"
proof -
  have cfg: "as_Config (bag (example_world example_config) ''config'') = Some example_config"
    and ui: "as_Ui (bag (example_world example_config) ''ui'') = Some ()"
    by (simp_all add: example_world_def)
  have url: "url_parses login_unreachable (URL (login_request example_config))"
    "url_parses login_rejected (URL (login_request example_config))"
    by (simp_all add: login_unreachable_def login_rejected_def example_extern_def)
  have a: "client_Do login_unreachable (login_request example_config) = (None, Some ''connection refused'')"
    by (simp add: login_unreachable_def example_extern_def login_request_def example_config_def)
  have b: "client_Do login_rejected (login_request example_config)
      = (Some \<lparr>StatusCode = 401, Status = ''401 Unauthorized'', Body = []\<rparr>, None)"
    by (simp add: login_rejected_def example_extern_def login_request_def example_config_def response_def)
  have c: "unmarshal_Token login_rejected [] = []"
    by (simp add: login_rejected_def example_extern_def)
  have old: "login_calls (http_log (example_world example_config)) = []"
    "http_log (example_world example_config) = []"
    by (simp_all add: example_world_def login_calls_def)
  note halted = login_call_outcomes [OF cfg ui url(1), of new_step, unfolded a, simplified]
  note went_on = login_call_outcomes [OF cfg ui url(2), of new_step, unfolded b, simplified]
  show ?thesis
    using halted went_on [THEN conjunct1] went_on [THEN conjunct2, THEN conjunct1]
    by (simp add: c old run_of_def login_calls_def)
qed

text \<open>
  C5. The login call is answered 401 with an empty body. The step does not halt there: it
  says \<open>Logged in with token\<close>, stores the empty string as the token, sends it on as the
  bearer of the create and deploy calls and returns continue, with no error stored or
  reported and \<open>failed\<close> still false.
\<close>

theorem C5_rejected_login_continues:
  "client_Do login_rejected (login_request example_config)
     = (Some \<lparr>StatusCode = 401, Status = ''401 Unauthorized'', Body = []\<rparr>, None) \<and>
   fst (run_of login_rejected example_config) = Returned ActionContinue \<and>
   failed (fst (snd (run_of login_rejected example_config))) = False \<and>
   bag (snd (snd (run_of login_rejected example_config))) ''error'' = None \<and>
   bag (snd (snd (run_of login_rejected example_config))) ''token'' = Some (VString []) \<and>
   filter is_UiError (ui_log (snd (snd (run_of login_rejected example_config)))) = [] \<and>
   take 2 (ui_log (snd (snd (run_of login_rejected example_config))))
     = [UiSay ''Logging into Orka API endpoint'', UiSay ''Logged in with token''] \<and>
   http_log (snd (snd (run_of login_rejected example_config)))
     = [login_request example_config, create_request example_config [] ''base.img'',
        deploy_request example_config []]"
  by (simp add: Let_def run_defs lib_defs example_defs atoi_defs request_defs)

subsection \<open>The VM identifier\<close>

lemma vmid_follows_deploy_none:
  "fst res \<noteq> Returned ActionContinue \<Longrightarrow> http_log (snd (snd res)) = http_log w \<Longrightarrow>
   bag (snd (snd res)) ''vmid'' = bag w ''vmid'' \<Longrightarrow> vmid_follows_deploy ext w res"
  by (simp add: vmid_follows_deploy_def issued_def deploy_answered_200_def)

lemma vmid_follows_deploy_other:
  "fst res \<noteq> Returned ActionContinue \<Longrightarrow> http_log (snd (snd res)) = http_log w @ [q] \<Longrightarrow>
   is_VMDeploy (Payload q) = False \<Longrightarrow>
   bag (snd (snd res)) ''vmid'' = bag w ''vmid'' \<Longrightarrow> vmid_follows_deploy ext w res"
  by (simp add: vmid_follows_deploy_def issued_def deploy_answered_200_def)

lemma vmid_follows_deploy_after:
  assumes "vmid_follows_deploy ext w1 res"
    and "http_log w1 = http_log w @ pre"
    and "list_all (\<lambda>q. \<not> is_VMDeploy (Payload q)) pre"
    and "bag w1 ''vmid'' = bag w ''vmid''"
  shows "vmid_follows_deploy ext w res"
proof -
  let ?log = "http_log (snd (snd res))"
  from assms(1) have pre1: "take (length (http_log w1)) ?log = http_log w1"
    by (simp add: vmid_follows_deploy_def)
  then have split: "?log = http_log w1 @ issued w1 (snd (snd res))"
    by (metis append_take_drop_id issued_def)
  have iss: "issued w (snd (snd res)) = pre @ issued w1 (snd (snd res))"
    using split assms(2) by (simp add: issued_def) (metis append.assoc append_eq_conv_conj)
  have tk: "take (length (http_log w)) ?log = http_log w"
    using split assms(2) by (metis append.assoc append_eq_conv_conj)
  have notdep: "pre \<noteq> [] \<Longrightarrow> \<not> is_VMDeploy (Payload (last pre))"
    using assms(3) by (metis (mono_tags, lifting) last_in_set list_all_iff)
  have ans: "deploy_answered_200 ext (pre @ issued w1 (snd (snd res)))
               = deploy_answered_200 ext (issued w1 (snd (snd res)))"
    using notdep by (cases "issued w1 (snd (snd res)) = []") (auto simp: deploy_answered_200_def)
  have dec: "issued w1 (snd (snd res)) \<noteq> [] \<Longrightarrow>
      decoded_vmid ext (pre @ issued w1 (snd (snd res))) = decoded_vmid ext (issued w1 (snd (snd res)))"
    by (simp add: decoded_vmid_def)
  show ?thesis
    using assms(1,4) tk ans dec
    by (auto simp add: vmid_follows_deploy_def iss deploy_answered_200_def)
qed


lemma Run_deploy_follows: "vmid_follows_deploy ext w (Run_deploy ext config token s w)"
proof (cases "NewRequest ext ''POST'' (OrkaEndpoint config @ ''/'' @ ''resources/vm/deploy'')
                (VMDeployRequest (OrkaVMBuilderName config))")
  case None
  then show ?thesis
    by (intro vmid_follows_deploy_none) (simp_all add: Run_deploy_def Let_def Say_def)
next
  case (Some req0)
  let ?req = "set_header ''Authorization'' (''Bearer '' @ token)
                (set_header ''Content-Type'' ''application/json'' req0)"
  have pay: "is_VMDeploy (Payload ?req) = True"
    using Some by (auto simp: NewRequest_def set_header_def split: if_splits)
  obtain resp err where d: "client_Do ext ?req = (resp, err)"
    by (cases "client_Do ext ?req")
  show ?thesis
  proof (cases resp)
    case None
    then show ?thesis
      using Some d pay
      by (simp add: Run_deploy_def Let_def Do_def Say_def vmid_follows_deploy_def issued_def
          deploy_answered_200_def)
  next
    case (Some r)
    then show ?thesis
      using \<open>NewRequest _ _ _ _ = Some req0\<close> d pay
      by (simp add: Run_deploy_def Run_store_result Let_def Do_def Say_def Put_def
          vmid_follows_deploy_def issued_def deploy_answered_200_def decoded_vmid_def)
  qed
qed

lemma Run_create_follows: "vmid_follows_deploy ext w (Run_create ext config token img s w)"
proof (cases "NewRequest ext ''POST'' (OrkaEndpoint config @ ''/'' @ ''resources/vm/create'')
                (VMCreateRequest (OrkaVMBuilderName config) img (OrkaVMBuilderName config)
                   (OrkaVMCPUCore config) (OrkaVMCPUCore config))")
  case None
  then show ?thesis
    by (intro vmid_follows_deploy_none) (simp_all add: Run_create_def Let_def Say_def)
next
  case (Some req0)
  let ?req = "set_header ''Authorization'' (''Bearer '' @ token)
                (set_header ''Content-Type'' ''application/json'' req0)"
  have pay: "is_VMDeploy (Payload ?req) = False"
    using Some by (auto simp: NewRequest_def set_header_def split: if_splits)
  obtain resp err where d: "client_Do ext ?req = (resp, err)"
    by (cases "client_Do ext ?req")
  show ?thesis
  proof (cases "err = None \<and> (\<exists>r. resp = Some r \<and> StatusCode r = 201)")
    case True
    then obtain r where r: "err = None" "resp = Some r" "StatusCode r = 201" by auto
    show ?thesis
      using Some d r pay
      by (simp add: Run_create_def Let_def Do_def)
         (rule vmid_follows_deploy_after [OF Run_deploy_follows, where pre = "[?req]"],
          simp_all add: Say_def)
  next
    case False
    then show ?thesis
      using Some d pay
      by (intro vmid_follows_deploy_other [where q = ?req])
         (auto simp add: Run_create_def Let_def Do_def Say_def Error_def Put_def split: option.splits)
  qed
qed


lemma Run_image_follows: "vmid_follows_deploy ext w (Run_image ext config token s w)"
proof (cases "ImagePrecopy config \<and> \<not> NoCreateImage config")
  case False
  then show ?thesis
    by (auto simp add: Run_image_def Let_def
        intro!: vmid_follows_deploy_after [OF Run_create_follows, where pre = "[]"])
       (simp_all add: Say_def)
next
  case True
  show ?thesis
  proof (cases "NewRequest ext ''POST'' (OrkaEndpoint config @ ''/'' @ ''resources/image/copy'')
                  (ImageCopyRequest (SourceImage config) (ImageName config))")
    case None
    then show ?thesis
      using True by (intro vmid_follows_deploy_none) (simp_all add: Run_image_def Let_def Say_def)
  next
    case (Some req0)
    let ?req = "set_header ''Authorization'' (''Bearer '' @ token)
                  (set_header ''Content-Type'' ''application/json'' req0)"
    have pay: "is_VMDeploy (Payload ?req) = False"
      using Some by (auto simp: NewRequest_def set_header_def split: if_splits)
    obtain resp err where d: "client_Do ext ?req = (resp, err)"
      by (cases "client_Do ext ?req")
    show ?thesis
    proof (cases "err = None \<and> (\<exists>r. resp = Some r \<and> StatusCode r = 200)")
      case ok: True
      then obtain r where r: "err = None" "resp = Some r" "StatusCode r = 200" by auto
      show ?thesis
        using True Some d r pay
        by (simp add: Run_image_def Let_def Do_def)
           (rule vmid_follows_deploy_after [OF Run_create_follows, where pre = "[?req]"],
            simp_all add: Say_def)
    next
      case False
      then show ?thesis
        using True Some d pay
        by (intro vmid_follows_deploy_other [where q = ?req])
           (auto simp add: Run_image_def Let_def Do_def Say_def Error_def Put_def split: option.splits)
    qed
  qed
qed

lemma Say_fields:
  "bag (Say m w) = bag w" "http_log (Say m w) = http_log w"
  by (simp_all add: Say_def)

lemma Run_follows: "vmid_follows_deploy ext w (stepOrkaCreate_Run ext s w)"
proof (cases "as_Config (bag w ''config'') = None \<or> as_Ui (bag w ''ui'') = None")
  case True
  then show ?thesis
    by (intro vmid_follows_deploy_none) (auto simp add: stepOrkaCreate_Run_def split: option.splits)
next
  case False
  then obtain config where c: "as_Config (bag w ''config'') = Some config" "as_Ui (bag w ''ui'') = Some ()"
    by auto
  show ?thesis
  proof (cases "NewRequest ext ''POST'' (OrkaEndpoint config @ ''/'' @ ''token'')
                  (TokenLoginRequest (OrkaUser config) (OrkaPassword config))")
    case None
    then show ?thesis
      using c
      by (intro vmid_follows_deploy_none)
         (simp_all add: stepOrkaCreate_Run_def createOrkaToken_def Let_def Say_def)
  next
    case (Some req0)
    let ?req = "set_header ''Content-Type'' ''application/json'' req0"
    have pay: "is_VMDeploy (Payload ?req) = False"
      using Some by (auto simp: NewRequest_def set_header_def split: if_splits)
    obtain resp err where d: "client_Do ext ?req = (resp, err)"
      by (cases "client_Do ext ?req")
    show ?thesis
    proof (cases "err = None \<and> (\<exists>r. resp = Some r)")
      case ok: True
      then obtain r where r: "err = None" "resp = Some r" by auto
      show ?thesis
        using c Some d r pay
        by (simp add: stepOrkaCreate_Run_def createOrkaToken_def Let_def Do_def Say_fields)
           (rule vmid_follows_deploy_after [OF Run_image_follows, where pre = "[?req]"],
            simp_all add: Say_def Put_def)
    next
      case False
      then show ?thesis
        using c Some d pay
        by (intro vmid_follows_deploy_other [where q = ?req])
           (auto simp add: stepOrkaCreate_Run_def createOrkaToken_def Let_def Do_def Say_def
              Error_def Put_def split: option.splits)
    qed
  qed
qed



lemma precopyImageDelete_ignores_vmid:
  "fst (precopyImageDelete ext (w\<lparr>bag := (bag w)(''vmid'' := v), ui_log := u\<rparr>))
     = fst (precopyImageDelete ext (w\<lparr>ui_log := u\<rparr>)) \<and>
   http_log (snd (precopyImageDelete ext (w\<lparr>bag := (bag w)(''vmid'' := v), ui_log := u\<rparr>)))
     = http_log (snd (precopyImageDelete ext (w\<lparr>ui_log := u\<rparr>)))"
proof (cases "as_Config (bag w ''config'') = None \<or> as_Ui (bag w ''ui'') = None
                \<or> as_string (bag w ''token'') = None")
  case True
  then show ?thesis
    by (auto simp add: precopyImageDelete_def split: option.splits)
next
  case False
  then obtain config token where c: "as_Config (bag w ''config'') = Some config"
    "as_Ui (bag w ''ui'') = Some ()" "as_string (bag w ''token'') = Some token"
    by auto
  show ?thesis
  proof (cases "NewRequest ext ''DELETE'' (OrkaEndpoint config @ ''/'' @ ''resources/image/delete'')
                  (ImageDeleteRequest (OrkaVMBuilderName config))")
    case None
    then show ?thesis using c by (simp add: precopyImageDelete_def)
  next
    case (Some req0)
    obtain resp err where "client_Do ext (set_header ''Authorization'' (''Bearer '' @ token)
        (set_header ''Content-Type'' ''application/json'' req0)) = (resp, err)"
      by (cases "client_Do ext (set_header ''Authorization'' (''Bearer '' @ token)
        (set_header ''Content-Type'' ''application/json'' req0))")
    then show ?thesis
      using c Some
      by (cases err; cases resp)
         (simp_all add: precopyImageDelete_def Let_def Do_def Say_def Error_def Put_def)
  qed
qed

lemma Cleanup_ignores_vmid:
  "fst (stepOrkaCreate_Cleanup ext s (w\<lparr>bag := (bag w)(''vmid'' := v)\<rparr>))
     = fst (stepOrkaCreate_Cleanup ext s w) \<and>
   http_log (snd (stepOrkaCreate_Cleanup ext s (w\<lparr>bag := (bag w)(''vmid'' := v)\<rparr>)))
     = http_log (snd (stepOrkaCreate_Cleanup ext s w))"
proof (cases "as_Config (bag w ''config'') = None \<or> as_Ui (bag w ''ui'') = None
                \<or> as_string (bag w ''token'') = None")
  case True
  then show ?thesis
    by (auto simp add: stepOrkaCreate_Cleanup_def split: option.splits)
next
  case False
  then obtain config token where c: "as_Config (bag w ''config'') = Some config"
    "as_Ui (bag w ''ui'') = Some ()" "as_string (bag w ''token'') = Some token"
    by auto
  consider (keep) "NoDeleteVM config"
    | (nothing) "\<not> NoDeleteVM config" "failed s" "\<not> ImagePrecopy config"
    | (image) "\<not> NoDeleteVM config" "failed s" "ImagePrecopy config"
    | (purge) "\<not> NoDeleteVM config" "\<not> failed s"
    by blast
  then show ?thesis
  proof cases
    case keep
    then show ?thesis using c by (simp add: stepOrkaCreate_Cleanup_def Let_def Say_def)
  next
    case nothing
    then show ?thesis using c by (simp add: stepOrkaCreate_Cleanup_def Say_def)
  next
    case image
    let ?u = "ui_log w @ [UiSay (''Pre-copy was performed: cleaning up pre-copied image '' @ ImageName config)]"
    obtain r1 w1 where a: "precopyImageDelete ext (w\<lparr>ui_log := ?u\<rparr>) = (r1, w1)"
      by (cases "precopyImageDelete ext (w\<lparr>ui_log := ?u\<rparr>)")
    obtain r2 w2 where b: "precopyImageDelete ext (w\<lparr>bag := (bag w)(''vmid'' := v), ui_log := ?u\<rparr>) = (r2, w2)"
      by (cases "precopyImageDelete ext (w\<lparr>bag := (bag w)(''vmid'' := v), ui_log := ?u\<rparr>)")
    have "r2 = r1" "http_log w2 = http_log w1"
      using precopyImageDelete_ignores_vmid [where ext = ext and w = w and v = v and u = ?u] a b
      by simp_all
    then show ?thesis
      using c image a b
      by (simp add: stepOrkaCreate_Cleanup_def Say_def split: outcome.splits option.splits)
  next
    case purge
    show ?thesis
    proof (cases "NewRequest ext ''DELETE'' (OrkaEndpoint config @ ''/'' @ ''resources/vm/purge'')
                    (VMPurgeRequest (OrkaVMBuilderName config))")
      case None
      then show ?thesis using c purge by (simp add: stepOrkaCreate_Cleanup_def Let_def Say_def)
    next
      case (Some req0)
      obtain resp err where "client_Do ext (set_header ''Authorization'' (''Bearer '' @ token)
          (set_header ''Content-Type'' ''application/json'' req0)) = (resp, err)"
        by (cases "client_Do ext (set_header ''Authorization'' (''Bearer '' @ token)
          (set_header ''Content-Type'' ''application/json'' req0))")
      then show ?thesis
        using c purge Some
        by (cases err; cases resp)
           (simp_all add: stepOrkaCreate_Cleanup_def Let_def Do_def Say_def Error_def Put_def)
    qed
  qed
qed

lemma stepCreateImage_Cleanup_checks:
  "http_log (snd (stepCreateImage_Cleanup w)) = http_log w \<and>
   stepCreateImage_Cleanup (w\<lparr>bag := (bag w)(''ui'' \<mapsto> VUi, ''vmid'' \<mapsto> VString [])\<rparr>)
     = (Returned (), w\<lparr>bag := (bag w)(''ui'' \<mapsto> VUi, ''vmid'' \<mapsto> VString [])\<rparr>)"
  by (simp add: stepCreateImage_Cleanup_def Let_def Say_def split: option.splits)

lemma purge_calls_append [simp]: "purge_calls (xs @ ys) = purge_calls xs @ purge_calls ys"
  by (simp add: purge_calls_def)

lemma precopyImageDelete_no_purge:
  "purge_calls (http_log (snd (precopyImageDelete ext w))) = purge_calls (http_log w)"
proof (cases "as_Config (bag w ''config'') = None \<or> as_Ui (bag w ''ui'') = None
                \<or> as_string (bag w ''token'') = None")
  case True
  then show ?thesis
    by (auto simp add: precopyImageDelete_def split: option.splits)
next
  case False
  then obtain config token where c: "as_Config (bag w ''config'') = Some config"
    "as_Ui (bag w ''ui'') = Some ()" "as_string (bag w ''token'') = Some token"
    by auto
  show ?thesis
  proof (cases "NewRequest ext ''DELETE'' (OrkaEndpoint config @ ''/'' @ ''resources/image/delete'')
                  (ImageDeleteRequest (OrkaVMBuilderName config))")
    case None
    then show ?thesis using c by (simp add: precopyImageDelete_def)
  next
    case (Some req0)
    let ?req = "set_header ''Authorization'' (''Bearer '' @ token)
                  (set_header ''Content-Type'' ''application/json'' req0)"
    have pay: "purge_calls [?req] = []"
      using Some by (auto simp: purge_calls_def NewRequest_def set_header_def split: if_splits)
    obtain resp err where "client_Do ext ?req = (resp, err)"
      by (cases "client_Do ext ?req")
    then show ?thesis
      using c Some pay
      by (cases err; cases resp)
         (simp_all add: precopyImageDelete_def Let_def Do_def Say_def Error_def Put_def)
  qed
qed

lemma Cleanup_purge_gating:
  assumes c: "as_Config (bag w ''config'') = Some config" "as_Ui (bag w ''ui'') = Some ()"
      "as_string (bag w ''token'') = Some token"
    and url: "url_parses ext (URL (purge_request config token))"
  shows "purge_calls (http_log (snd (stepOrkaCreate_Cleanup ext s w)))
           = purge_calls (http_log w)
             @ (if \<not> NoDeleteVM config \<and> \<not> failed s then [purge_request config token] else [])"
proof -
  consider (keep) "NoDeleteVM config"
    | (nothing) "\<not> NoDeleteVM config" "failed s" "\<not> ImagePrecopy config"
    | (image) "\<not> NoDeleteVM config" "failed s" "ImagePrecopy config"
    | (purge) "\<not> NoDeleteVM config" "\<not> failed s"
    by blast
  then show ?thesis
  proof cases
    case keep
    then show ?thesis using c by (simp add: stepOrkaCreate_Cleanup_def Let_def Say_def)
  next
    case nothing
    then show ?thesis using c by (simp add: stepOrkaCreate_Cleanup_def Say_def)
  next
    case image
    let ?w1 = "Say (''Pre-copy was performed: cleaning up pre-copied image '' @ ImageName config) w"
    obtain r1 w1 where a: "precopyImageDelete ext ?w1 = (r1, w1)"
      by (cases "precopyImageDelete ext ?w1")
    have "purge_calls (http_log w1) = purge_calls (http_log w)"
      using precopyImageDelete_no_purge [of ext ?w1] a by (simp add: Say_def)
    then show ?thesis
      using c image a
      by (simp add: stepOrkaCreate_Cleanup_def Say_def split: outcome.splits option.splits)
  next
    case purge
    have one: "purge_calls [purge_request config token] = [purge_request config token]"
      by (simp add: purge_calls_def purge_request_def bearer_request_def)
    obtain resp err where "client_Do ext (purge_request config token) = (resp, err)"
      by (cases "client_Do ext (purge_request config token)")
    then show ?thesis
      using c purge url one
      by (cases err; cases resp)
         (simp_all add: stepOrkaCreate_Cleanup_def Let_def lib_defs request_defs)
  qed
qed

text \<open>
  C6, as the code has it. For every run of the create step, from any state: the step
  returns continue exactly when its last request was the deploy call and that call was
  answered 200; the bag entry \<open>vmid\<close> is then the identifier decoded from that answer,
  empty if the answer carries none, and in every other case (halt or panic) it is what it
  was before the run. \<open>Cleanup\<close> of the create step does not consult \<open>vmid\<close>: its result
  and the requests it makes are the same whatever is stored there. What decides the purge
  is \<open>NoDeleteVM\<close> and \<open>failed\<close> alone: with configuration, interface and token in the
  bag and a purge URL that parses, \<open>Cleanup\<close> sends the purge request for the builder VM
  name, once, when \<open>NoDeleteVM\<close> is unset and \<open>failed\<close> is false, and sends no purge
  request in any other case. \<open>Cleanup\<close> of the create-image step makes no request, and
  with an empty \<open>vmid\<close> returns at once, leaving the world as it found it.
\<close>

theorem C6_vmid_and_cleanup:
  "vmid_follows_deploy ext w (stepOrkaCreate_Run ext s w) \<and>
   fst (stepOrkaCreate_Cleanup ext s (w\<lparr>bag := (bag w)(''vmid'' := v)\<rparr>))
     = fst (stepOrkaCreate_Cleanup ext s w) \<and>
   http_log (snd (stepOrkaCreate_Cleanup ext s (w\<lparr>bag := (bag w)(''vmid'' := v)\<rparr>)))
     = http_log (snd (stepOrkaCreate_Cleanup ext s w)) \<and>
   (as_Config (bag w ''config'') = Some config \<and> as_Ui (bag w ''ui'') = Some () \<and>
    as_string (bag w ''token'') = Some token \<and> url_parses ext (URL (purge_request config token))
    \<longrightarrow> purge_calls (http_log (snd (stepOrkaCreate_Cleanup ext s w)))
          = purge_calls (http_log w)
            @ (if \<not> NoDeleteVM config \<and> \<not> failed s then [purge_request config token] else [])) \<and>
   http_log (snd (stepCreateImage_Cleanup w)) = http_log w \<and>
   stepCreateImage_Cleanup (w\<lparr>bag := (bag w)(''ui'' \<mapsto> VUi, ''vmid'' \<mapsto> VString [])\<rparr>)
     = (Returned (), w\<lparr>bag := (bag w)(''ui'' \<mapsto> VUi, ''vmid'' \<mapsto> VString [])\<rparr>)"
  using Run_follows [of ext w s] Cleanup_ignores_vmid [of ext s w v]
    stepCreateImage_Cleanup_checks [of w] Cleanup_purge_gating [of w config token ext s]
  by simp

theorem C6_witness:
  "purge_calls (http_log (snd (stepOrkaCreate_Cleanup (example_extern all_succeed) new_step
                                 (empty_vmid_world example_config))))
     = [purge_request example_config ''tok''] \<and>
   purge_calls (http_log (snd (stepOrkaCreate_Cleanup (example_extern all_succeed)
                                 \<lparr>failed = True, precopyFailed = False\<rparr>
                                 (empty_vmid_world precopy_config)))) = [] \<and>
   purge_calls (http_log (snd (stepOrkaCreate_Cleanup (example_extern all_succeed) new_step
                                 (empty_vmid_world keep_vm_config)))) = []"
proof -
  have bagged: "as_Config (bag (empty_vmid_world c) ''config'') = Some c \<and>
      as_Ui (bag (empty_vmid_world c) ''ui'') = Some () \<and>
      as_string (bag (empty_vmid_world c) ''token'') = Some ''tok'' \<and>
      url_parses (example_extern all_succeed) (URL (purge_request c ''tok''))" for c
    by (simp add: empty_vmid_world_def example_extern_def)
  have start: "purge_calls (http_log (empty_vmid_world c)) = []" for c
    by (simp add: empty_vmid_world_def purge_calls_def)
  show ?thesis
    using
      C6_vmid_and_cleanup
        [where ext = "example_extern all_succeed" and w = "empty_vmid_world example_config"
           and s = new_step and config = example_config and token = "''tok''",
         THEN conjunct2, THEN conjunct2, THEN conjunct2, THEN conjunct1, THEN mp, OF bagged]
      C6_vmid_and_cleanup
        [where ext = "example_extern all_succeed" and w = "empty_vmid_world precopy_config"
           and s = "\<lparr>failed = True, precopyFailed = False\<rparr>" and config = precopy_config and token = "''tok''",
         THEN conjunct2, THEN conjunct2, THEN conjunct2, THEN conjunct1, THEN mp, OF bagged]
      C6_vmid_and_cleanup
        [where ext = "example_extern all_succeed" and w = "empty_vmid_world keep_vm_config"
           and s = new_step and config = keep_vm_config and token = "''tok''",
         THEN conjunct2, THEN conjunct2, THEN conjunct2, THEN conjunct1, THEN mp, OF bagged]
    by (simp add: start new_step_def precopy_config_def keep_vm_config_def example_config_def)
qed

text \<open>
  C6 as stated fails: the deploy call is answered 200 with a body that carries no
  identifier. The step returns continue with the empty string stored under \<open>vmid\<close>, and
  \<open>Cleanup\<close> then sends the purge request without looking at it.
\<close>

theorem C6_empty_vmid_counterexample:
  "deploy_answered_200 deploy_without_id
     (issued (example_world example_config) (snd (snd (run_of deploy_without_id example_config)))) \<and>
   fst (run_of deploy_without_id example_config) = Returned ActionContinue \<and>
   bag (snd (snd (run_of deploy_without_id example_config))) ''vmid'' = Some (VString []) \<and>
   fst (cleanup_after deploy_without_id example_config) = Returned () \<and>
   map Payload (http_log (snd (cleanup_after deploy_without_id example_config))) =
     [TokenLoginRequest ''admin'' ''secret'',
      VMCreateRequest ''builder'' ''base.img'' ''builder'' 3 3, VMDeployRequest ''builder'',
      VMPurgeRequest ''builder'']"
  by (simp add: Let_def run_defs lib_defs example_defs atoi_defs stepOrkaCreate_Cleanup_def
      issued_def deploy_answered_200_def)

end
